theory Spec2Isabelle
  imports Main "HOL-Library.Sublist"
begin

section \<open>JavaScript values\<close>

text \<open>
  The values that \<^verbatim>\<open>response.json()\<close> can deliver, together with \<^verbatim>\<open>undefined\<close>, which a
  property read of a missing key yields. Numbers are restricted to integers (run identifiers
  are integers; no claim reads a fractional number), and \<open>JNum n\<close> stands for a number only
  while \<open>n\<close> is below \<open>2 ^ 53\<close> in magnitude, the range a JavaScript number holds exactly and
  prints digit by digit. An object is the association list of its own properties, and is
  taken to have no own property named \<^verbatim>\<open>toString\<close> or \<^verbatim>\<open>valueOf\<close>, so that its string
  conversion is the inherited one.
\<close>

datatype jsval =
    Undefined
  | JNull
  | JBool bool
  | JNum int
  | JStr string
  | JArr "jsval list"
  | JObj "(string \<times> jsval) list"

text \<open>
  Errors that can be thrown. \<open>Error m\<close> is \<^verbatim>\<open>new Error(m)\<close> of the program; the other three are
  raised by the engine (a property read of \<^verbatim>\<open>null\<close> or \<^verbatim>\<open>undefined\<close>, a body that is not JSON, a
  \<^verbatim>\<open>fetch\<close> that rejects) and their message text belongs to the engine.
\<close>

datatype js_error = Error string | TypeError | SyntaxError | FetchFailed

text \<open>Truthiness, as \<^verbatim>\<open>if (v)\<close>, \<^verbatim>\<open>!v\<close> and \<^verbatim>\<open>v || w\<close> test it.\<close>

fun truthy :: "jsval \<Rightarrow> bool" where
  "truthy Undefined = False"
| "truthy JNull = False"
| "truthy (JBool b) = b"
| "truthy (JNum n) = (n \<noteq> 0)"
| "truthy (JStr s) = (s \<noteq> [])"
| "truthy (JArr vs) = True"
| "truthy (JObj kvs) = True"

text \<open>Decimal digits of a natural number, as a template literal prints a number.\<close>

definition digit :: "nat \<Rightarrow> char" where
  "digit d = char_of (48 + d)"

fun show_nat :: "nat \<Rightarrow> string" where
  "show_nat n = (if n < 10 then [digit n] else show_nat (n div 10) @ [digit (n mod 10)])"

declare show_nat.simps [simp del]

definition show_int :: "int \<Rightarrow> string" where
  "show_int i = (if i < 0 then CHR ''-'' # show_nat (nat (- i)) else show_nat (nat i))"

text \<open>\<^verbatim>\<open>Array.prototype.join\<close> with the separator \<^verbatim>\<open>","\<close>, on strings already converted.\<close>

fun join_comma :: "string list \<Rightarrow> string" where
  "join_comma [] = []"
| "join_comma [s] = s"
| "join_comma (s # t # ts) = s @ '','' @ join_comma (t # ts)"

text \<open>
  String conversion, as a template literal \<^verbatim>\<open>${v}\<close> and \<^verbatim>\<open>new Error(v)\<close> perform it, on the values
  described above (a larger number would print in exponent form, and an object with an own
  \<^verbatim>\<open>toString\<close> that is not a function would make the conversion throw). Inside an array
  \<^verbatim>\<open>null\<close> and \<^verbatim>\<open>undefined\<close> print as the empty string.
\<close>

fun toString :: "jsval \<Rightarrow> string" where
  "toString Undefined = ''undefined''"
| "toString JNull = ''null''"
| "toString (JBool b) = (if b then ''true'' else ''false'')"
| "toString (JNum n) = show_int n"
| "toString (JStr s) = s"
| "toString (JArr vs) =
     join_comma (map (\<lambda>v. if v = Undefined \<or> v = JNull then [] else toString v) vs)"
| "toString (JObj kvs) = ''[object Object]''"

text \<open>
  A property read \<^verbatim>\<open>v.key\<close>. On \<^verbatim>\<open>null\<close> and \<^verbatim>\<open>undefined\<close> it throws; on an object it finds the
  property or \<^verbatim>\<open>undefined\<close>; on a primitive or an array none of the keys the program reads
  (\<^verbatim>\<open>message\<close>, \<^verbatim>\<open>workflow_runs\<close>, \<^verbatim>\<open>id\<close>, \<^verbatim>\<open>status\<close>, \<^verbatim>\<open>conclusion\<close>) exists.
\<close>

fun getProp :: "jsval \<Rightarrow> string \<Rightarrow> js_error + jsval" where
  "getProp Undefined k = Inl TypeError"
| "getProp JNull k = Inl TypeError"
| "getProp (JObj kvs) k = Inr (case map_of kvs k of None \<Rightarrow> Undefined | Some v \<Rightarrow> v)"
| "getProp v k = Inr Undefined"

text \<open>
  The indexed read \<^verbatim>\<open>v[0]\<close>: the first element of an array, the first character of a string,
  the property \<^verbatim>\<open>"0"\<close> of an object.
\<close>

fun getIndex0 :: "jsval \<Rightarrow> js_error + jsval" where
  "getIndex0 Undefined = Inl TypeError"
| "getIndex0 JNull = Inl TypeError"
| "getIndex0 (JArr vs) = Inr (case vs of [] \<Rightarrow> Undefined | v # _ \<Rightarrow> v)"
| "getIndex0 (JStr s) = Inr (case s of [] \<Rightarrow> Undefined | c # _ \<Rightarrow> JStr [c])"
| "getIndex0 (JObj kvs) = Inr (case map_of kvs ''0'' of None \<Rightarrow> Undefined | Some v \<Rightarrow> v)"
| "getIndex0 v = Inr Undefined"

section \<open>URL classifier\<close>

text \<open>\<^verbatim>\<open>String.prototype.includes\<close>: the argument occurs as a contiguous piece of the string
  (\<open>includes\<close> is a keyword of Isabelle, hence the suffix).\<close>

fun includes_str :: "string \<Rightarrow> string \<Rightarrow> bool" where
  "includes_str [] t = (t = [])"
| "includes_str (c # cs) t = (prefix t (c # cs) \<or> includes_str cs t)"

text \<open>\<^verbatim>\<open>getWorkflowType(url)\<close>, app.js lines 146-153.\<close>

definition getWorkflowType :: "string \<Rightarrow> string" where
  "getWorkflowType url =
     (if includes_str url ''youtube.com'' \<or> includes_str url ''youtu.be'' then ''download-youtube''
      else if includes_str url ''tiktok.com'' then ''download-tiktok''
      else ''download-video'')"

section \<open>The page, the network and the trace of effects\<close>

text \<open>The object \<^verbatim>\<open>getFormData()\<close> builds, app.js lines 60-68.\<close>

record formData =
  videoUrl :: string
  githubToken :: string
  downloadType :: string
  repoOwner :: string
  repoName :: string

text \<open>
  A request as \<^verbatim>\<open>fetch\<close> receives it. The body is kept as the value that \<^verbatim>\<open>JSON.stringify\<close> is
  applied to.
\<close>

record request =
  req_method :: string
  req_url :: string
  req_headers :: "(string \<times> string) list"
  req_body :: "jsval option"

text \<open>
  A response: its numeric status, its status text, and what \<^verbatim>\<open>response.json()\<close> resolves to
  (\<open>None\<close> when the body is not JSON and the call rejects). \<^verbatim>\<open>response.ok\<close> is the Fetch
  standard's test for a status from 200 to 299.
\<close>

record response =
  status :: nat
  statusText :: string
  json :: "jsval option"

definition ok :: "response \<Rightarrow> bool" where
  "ok r = (200 \<le> status r \<and> status r \<le> 299)"

datatype fetch_result = Rejected | Resolved response

text \<open>
  Everything the program receives from outside: the clock, the engine's text for the errors
  it raises itself, and the outcome of each request (the dispatch, the run listing, and the
  status request of the poll tick with a given attempt number, counted from 1).
\<close>

record world =
  now :: string
  engineMessage :: "js_error \<Rightarrow> string"
  dispatchResponse :: fetch_result
  runsResponse :: fetch_result
  statusResponse :: "nat \<Rightarrow> fetch_result"

definition errorMessage :: "world \<Rightarrow> js_error \<Rightarrow> string" where
  "errorMessage w e = (case e of Error m \<Rightarrow> m | _ \<Rightarrow> engineMessage w e)"

text \<open>The effects of the program, in the order in which they happen.\<close>

datatype event =
    StorageSet string string
  | SetValue string string
  | ShowStatus string string
  | SetLoading bool
  | ShowWorkflowLink string
  | LoadDownloads
  | ConsoleError string js_error
  | Fetch request
  | SetTimeout nat

text \<open>
  The state of the page: \<^verbatim>\<open>localStorage\<close>, the value of each form element by its id, the
  status line (\<^verbatim>\<open>textContent\<close> and \<^verbatim>\<open>className\<close> of \<^verbatim>\<open>#statusMessage\<close>), whether the button is
  disabled, and the trace of effects so far. The elements the program looks up by id are
  taken to exist, and writes to \<^verbatim>\<open>localStorage\<close> to succeed.
\<close>

record page =
  localStorage :: "string \<Rightarrow> string option"
  inputs :: "string \<Rightarrow> string"
  messageText :: string
  messageClass :: string
  loading :: bool
  trace :: "event list"

definition emit :: "event \<Rightarrow> page \<Rightarrow> page" where
  "emit e s = s\<lparr>trace := trace s @ [e]\<rparr>"

text \<open>\<^verbatim>\<open>showStatus(message, type)\<close>, app.js lines 227-231.\<close>

definition showStatus :: "string \<Rightarrow> string \<Rightarrow> page \<Rightarrow> page" where
  "showStatus message type s =
     emit (ShowStatus message type)
       (s\<lparr>messageText := message, messageClass := ''status-message '' @ type\<rparr>)"

text \<open>\<^verbatim>\<open>setLoading(loading)\<close>, app.js lines 212-225.\<close>

definition setLoading :: "bool \<Rightarrow> page \<Rightarrow> page" where
  "setLoading b s = emit (SetLoading b) (s\<lparr>loading := b\<rparr>)"

text \<open>\<^verbatim>\<open>loadDownloads()\<close>, app.js lines 233-243: it writes a fixed placeholder.\<close>

definition loadDownloads :: "page \<Rightarrow> page" where
  "loadDownloads s = emit LoadDownloads s"

text \<open>\<^verbatim>\<open>showWorkflowLink(owner, repo, runId)\<close>, app.js lines 205-210.\<close>

definition showWorkflowLink :: "string \<Rightarrow> string \<Rightarrow> jsval \<Rightarrow> page \<Rightarrow> page" where
  "showWorkflowLink owner repo runId s =
     emit (ShowWorkflowLink
            (''https://github.com/'' @ owner @ ''/'' @ repo @ ''/actions/runs/'' @ toString runId)) s"

section \<open>Persisted owner and repository name\<close>

text \<open>\<^verbatim>\<open>localStorage.setItem(key, value)\<close> and an assignment to the \<^verbatim>\<open>value\<close> of a form element.\<close>

definition setItem :: "string \<Rightarrow> string \<Rightarrow> page \<Rightarrow> page" where
  "setItem k v s = emit (StorageSet k v) (s\<lparr>localStorage := (localStorage s)(k \<mapsto> v)\<rparr>)"

definition setValue :: "string \<Rightarrow> string \<Rightarrow> page \<Rightarrow> page" where
  "setValue i v s = emit (SetValue i v) (s\<lparr>inputs := (inputs s)(i := v)\<rparr>)"

text \<open>
  \<^verbatim>\<open>loadSavedRepoInfo()\<close>, app.js lines 18-24. \<^verbatim>\<open>getItem\<close> gives \<^verbatim>\<open>null\<close> for a missing key, and
  \<^verbatim>\<open>if (saved)\<close> is false for \<^verbatim>\<open>null\<close> and for the empty string.
\<close>

definition loadSavedRepoInfo :: "page \<Rightarrow> page" where
  "loadSavedRepoInfo s =
     (let savedOwner = localStorage s ''repoOwner'';
          savedRepo = localStorage s ''repoName'';
          s1 = (case savedOwner of
                  Some v \<Rightarrow> if v \<noteq> [] then setValue ''repoOwner'' v s else s
                | None \<Rightarrow> s)
      in (case savedRepo of
            Some v \<Rightarrow> if v \<noteq> [] then setValue ''repoName'' v s1 else s1
          | None \<Rightarrow> s1))"

text \<open>\<^verbatim>\<open>saveRepoInfo(owner, repo)\<close>, app.js lines 26-29.\<close>

definition saveRepoInfo :: "string \<Rightarrow> string \<Rightarrow> page \<Rightarrow> page" where
  "saveRepoInfo owner repo s = setItem ''repoName'' repo (setItem ''repoOwner'' owner s)"

text \<open>\<^verbatim>\<open>init()\<close>, app.js lines 10-16, run once when the page has loaded.\<close>

definition init :: "page \<Rightarrow> page" where
  "init s = loadSavedRepoInfo (loadDownloads s)"

section \<open>Validation\<close>

definition getFormData :: "page \<Rightarrow> formData" where
  "getFormData s =
     \<lparr>videoUrl = inputs s ''videoUrl'',
      githubToken = inputs s ''githubToken'',
      downloadType = inputs s ''downloadType'',
      repoOwner = inputs s ''repoOwner'',
      repoName = inputs s ''repoName''\<rparr>"

text \<open>
  The two regular expressions of \<^verbatim>\<open>isValidUrl\<close>, app.js lines 84-88. Each is anchored at the
  start only: an optional scheme, an optional \<^verbatim>\<open>www.\<close>, one of the hosts, a slash, and at least
  one character that is not a line terminator (of those, an 8-bit \<open>char\<close> has the line feed
  and the carriage return). \<open>urlRegexTest\<close> tries every way of taking the optional parts.
\<close>

definition lineTerminator :: "char \<Rightarrow> bool" where
  "lineTerminator c = (c = CHR 0x0A \<or> c = CHR 0x0D)"

definition urlPrefixes :: "string list \<Rightarrow> string list" where
  "urlPrefixes hosts =
     concat (map (\<lambda>scheme. concat (map (\<lambda>www. map (\<lambda>host. scheme @ www @ host @ ''/'') hosts)
                                  [[], ''www.'']))
               [[], ''http://'', ''https://''])"

definition urlRegexTest :: "string list \<Rightarrow> string \<Rightarrow> bool" where
  "urlRegexTest hosts u =
     list_ex
       (\<lambda>p. prefix p u \<and> (case drop (length p) u of [] \<Rightarrow> False | c # _ \<Rightarrow> \<not> lineTerminator c))
       (urlPrefixes hosts)"

definition isValidUrl :: "string \<Rightarrow> bool" where
  "isValidUrl u =
     (urlRegexTest [''youtube.com'', ''youtu.be''] u \<or> urlRegexTest [''tiktok.com''] u)"

text \<open>\<^verbatim>\<open>validateForm(data)\<close>, app.js lines 70-82; \<^verbatim>\<open>!s\<close> on a string is true for the empty string.\<close>

definition validateForm :: "formData \<Rightarrow> page \<Rightarrow> bool \<times> page" where
  "validateForm d s =
     (if videoUrl d = [] \<or> githubToken d = [] \<or> repoOwner d = [] \<or> repoName d = []
      then (False, showStatus ''Please fill in all required fields'' ''error'' s)
      else if \<not> isValidUrl (videoUrl d)
      then (False, showStatus ''Please enter a valid YouTube or TikTok URL'' ''error'' s)
      else (True, s))"

section \<open>Dispatch client and run locator\<close>

definition authHeaders :: "formData \<Rightarrow> (string \<times> string) list" where
  "authHeaders d =
     [(''Authorization'', ''token '' @ githubToken d),
      (''Accept'', ''application/vnd.github.v3+json'')]"

definition repoApi :: "formData \<Rightarrow> string" where
  "repoApi d = ''https://api.github.com/repos/'' @ repoOwner d @ ''/'' @ repoName d"

text \<open>The request of \<^verbatim>\<open>triggerWorkflow\<close>, app.js lines 91-111.\<close>

definition dispatchRequest :: "world \<Rightarrow> formData \<Rightarrow> request" where
  "dispatchRequest w d =
     \<lparr>req_method = ''POST'',
      req_url = repoApi d @ ''/dispatches'',
      req_headers = authHeaders d @ [(''Content-Type'', ''application/json'')],
      req_body = Some (JObj
        [(''event_type'', JStr (getWorkflowType (videoUrl d))),
         (''client_payload'', JObj
            [(''video_url'', JStr (videoUrl d)),
             (''download_type'', JStr (downloadType d)),
             (''timestamp'', JStr (now w))])])\<rparr>"

text \<open>The request of \<^verbatim>\<open>getLatestWorkflowRun\<close>, app.js lines 128-135.\<close>

definition runsRequest :: "formData \<Rightarrow> request" where
  "runsRequest d =
     \<lparr>req_method = ''GET'',
      req_url = repoApi d @ ''/actions/runs'',
      req_headers = authHeaders d,
      req_body = None\<rparr>"

text \<open>The request of \<^verbatim>\<open>checkWorkflowStatus\<close>, app.js lines 189-196.\<close>

definition statusRequest :: "formData \<Rightarrow> jsval \<Rightarrow> request" where
  "statusRequest d runId =
     \<lparr>req_method = ''GET'',
      req_url = repoApi d @ ''/actions/runs/'' @ toString runId,
      req_headers = authHeaders d,
      req_body = None\<rparr>"

text \<open>
  \<^verbatim>\<open>getLatestWorkflowRun(data, workflowType)\<close>, app.js lines 125-144: a delay of two seconds,
  the listing request, then \<^verbatim>\<open>workflow_runs[0]\<close> of the body and its \<^verbatim>\<open>id\<close>, or \<^verbatim>\<open>null\<close>.
  \<open>latestRunId\<close> is what the call resolves to or rejects with, from the response alone.
\<close>

definition latestRunId :: "world \<Rightarrow> js_error + jsval" where
  "latestRunId w =
     (case runsResponse w of
        Rejected \<Rightarrow> Inl FetchFailed
      | Resolved r \<Rightarrow>
          if ok r then
            (case json r of
               None \<Rightarrow> Inl SyntaxError
             | Some dat \<Rightarrow>
                 (case getProp dat ''workflow_runs'' of
                    Inl e \<Rightarrow> Inl e
                  | Inr runs \<Rightarrow>
                      (case getIndex0 runs of
                         Inl e \<Rightarrow> Inl e
                       | Inr latestRun \<Rightarrow>
                           if truthy latestRun then getProp latestRun ''id'' else Inr JNull)))
          else Inr JNull)"

definition getLatestWorkflowRun :: "world \<Rightarrow> formData \<Rightarrow> page \<Rightarrow> (js_error + jsval) \<times> page" where
  "getLatestWorkflowRun w d s =
     (latestRunId w, emit (Fetch (runsRequest d)) (emit (SetTimeout 2000) s))"

text \<open>The object \<^verbatim>\<open>{ success: true, runId }\<close> that \<^verbatim>\<open>triggerWorkflow\<close> returns.\<close>

record dispatchResult =
  success :: bool
  runId :: jsval

text \<open>
  \<^verbatim>\<open>triggerWorkflow(data)\<close>, app.js lines 90-123. On a response that is not ok the body is read
  (\<^verbatim>\<open>{}\<close> when it is not JSON) and an \<^verbatim>\<open>Error\<close> is thrown with its \<^verbatim>\<open>message\<close>, or with the status
  line when that is falsy.
\<close>

definition triggerWorkflow :: "world \<Rightarrow> formData \<Rightarrow> page \<Rightarrow> (js_error + dispatchResult) \<times> page" where
  "triggerWorkflow w d s =
     (let s1 = emit (Fetch (dispatchRequest w d)) s
      in (case dispatchResponse w of
            Rejected \<Rightarrow> (Inl FetchFailed, s1)
          | Resolved r \<Rightarrow>
              if \<not> ok r then
                (let errorData = (case json r of None \<Rightarrow> JObj [] | Some v \<Rightarrow> v)
                 in (case getProp errorData ''message'' of
                       Inl e \<Rightarrow> (Inl e, s1)
                     | Inr m \<Rightarrow>
                         (Inl (Error (if truthy m then toString m
                                      else ''HTTP '' @ show_nat (status r) @ '': '' @ statusText r)),
                          s1)))
              else
                (case getLatestWorkflowRun w d s1 of
                   (Inl e, s2) \<Rightarrow> (Inl e, s2)
                 | (Inr i, s2) \<Rightarrow> (Inr \<lparr>success = True, runId = i\<rparr>, s2))))"

section \<open>Status poller\<close>

definition maxAttempts :: nat where
  "maxAttempts = 30"

text \<open>
  \<^verbatim>\<open>checkWorkflowStatus(formData, runId)\<close>, app.js lines 188-203, for the request of the tick
  with attempt number \<open>n\<close>: what the awaited call gives. The request itself is recorded in the
  trace by \<open>poll\<close>.
\<close>

definition checkWorkflowStatus :: "world \<Rightarrow> nat \<Rightarrow> js_error + jsval" where
  "checkWorkflowStatus w n =
     (case statusResponse w n of
        Rejected \<Rightarrow> Inl FetchFailed
      | Resolved r \<Rightarrow>
          if ok r then (case json r of None \<Rightarrow> Inl SyntaxError | Some v \<Rightarrow> Inr v)
          else Inl (Error ''Failed to check workflow status''))"

definition consoleError :: "js_error \<Rightarrow> page \<Rightarrow> page" where
  "consoleError e s = emit (ConsoleError ''Error polling workflow status:'' e) s"

definition progressMessage :: "nat \<Rightarrow> string" where
  "progressMessage attempts =
     ''Download in progress... ('' @ show_nat attempts @ ''/'' @ show_nat maxAttempts @ '')''"

text \<open>
  The closure \<^verbatim>\<open>poll\<close>, app.js lines 161-183, with the counter \<^verbatim>\<open>attempts\<close> as an argument: one
  call is one tick, and \<^verbatim>\<open>setTimeout(poll, 10000)\<close> is the recursive call. A tick sends its
  request and suspends; \<open>k\<close> is what the caller does before the response arrives (the rest of
  \<^verbatim>\<open>handleSubmit\<close> for the first tick, nothing for a tick started by the timer).
\<close>

function poll :: "world \<Rightarrow> formData \<Rightarrow> jsval \<Rightarrow> (page \<Rightarrow> page) \<Rightarrow> nat \<Rightarrow> page \<Rightarrow> page" where
  "poll w d run k attempts0 s =
     (let attempts = attempts0 + 1;
          s1 = k (emit (Fetch (statusRequest d run)) s)
      in (case checkWorkflowStatus w attempts of
            Inl e \<Rightarrow> consoleError e s1
          | Inr st \<Rightarrow>
              (case getProp st ''conclusion'' of
                 Inl e \<Rightarrow> consoleError e s1
               | Inr c \<Rightarrow>
                   if c = JStr ''success'' then
                     loadDownloads (showStatus ''Download completed successfully!'' ''success'' s1)
                   else if c = JStr ''failure'' then
                     showStatus ''Download failed. Check the workflow logs for details.'' ''error'' s1
                   else
                     (case getProp st ''status'' of
                        Inl e \<Rightarrow> consoleError e s1
                      | Inr l \<Rightarrow>
                          if l = JStr ''in_progress'' \<and> attempts < maxAttempts then
                            poll w d run id attempts
                              (emit (SetTimeout 10000)
                                 (showStatus (progressMessage attempts) ''info'' s1))
                          else if attempts \<ge> maxAttempts then
                            showStatus ''Polling timeout. Please check workflow manually.''
                              ''warning'' s1
                          else s1))))"
  by pat_completeness auto
termination
  by (relation "measure (\<lambda>(w, d, run, k, attempts0, s). maxAttempts - attempts0)") auto

declare poll.simps [simp del]

text \<open>\<^verbatim>\<open>pollWorkflowStatus(formData, runId)\<close>, app.js lines 155-186.\<close>

definition pollWorkflowStatus :: "world \<Rightarrow> formData \<Rightarrow> jsval \<Rightarrow> (page \<Rightarrow> page) \<Rightarrow> page \<Rightarrow> page" where
  "pollWorkflowStatus w d run k s = (if \<not> truthy run then k s else poll w d run k 0 s)"

section \<open>Form controller\<close>

text \<open>
  \<^verbatim>\<open>handleSubmit(e)\<close>, app.js lines 31-58; \<^verbatim>\<open>e.preventDefault()\<close> only stops the browser's own
  submission and leaves the page as it is. \<^verbatim>\<open>pollWorkflowStatus\<close> is not awaited: it runs up to
  its first request, then the \<^verbatim>\<open>finally\<close> block runs, and the poll goes on afterwards. The
  \<^verbatim>\<open>else\<close> branch throws \<^verbatim>\<open>new Error(result.error)\<close> with \<^verbatim>\<open>result.error\<close> undefined, an \<^verbatim>\<open>Error\<close> whose
  message is empty.
\<close>

definition handleSubmit :: "world \<Rightarrow> page \<Rightarrow> page" where
  "handleSubmit w s =
     (let formData = getFormData s
      in (case validateForm formData s of
            (False, s1) \<Rightarrow> s1
          | (True, s1) \<Rightarrow>
              (let s2 = saveRepoInfo (repoOwner formData) (repoName formData) s1;
                   s3 = setLoading True s2;
                   s4 = showStatus ''Triggering download workflow...'' ''info'' s3
               in (case triggerWorkflow w formData s4 of
                     (Inr result, s5) \<Rightarrow>
                       if success result then
                         pollWorkflowStatus w formData (runId result) (setLoading False)
                           (showWorkflowLink (repoOwner formData) (repoName formData) (runId result)
                              (showStatus
                                 (''Workflow triggered successfully! Run ID: '' @ toString (runId result))
                                 ''success'' s5))
                       else
                         setLoading False
                           (showStatus (''Error: '' @ errorMessage w (Error [])) ''error'' s5)
                   | (Inl error, s5) \<Rightarrow>
                       setLoading False
                         (showStatus (''Error: '' @ errorMessage w error) ''error'' s5)))))"

section \<open>Auxiliary notions for the statements\<close>

text \<open>
  What one tick that finds the run in progress adds to the page: the progress message, the
  timer, and the request of the following tick.
\<close>

definition progressTick :: "formData \<Rightarrow> jsval \<Rightarrow> page \<Rightarrow> nat \<Rightarrow> page" where
  "progressTick d run s i =
     emit (Fetch (statusRequest d run))
       (emit (SetTimeout 10000) (showStatus (progressMessage i) ''info'' s))"

definition isFetch :: "event \<Rightarrow> bool" where
  "isFetch e = (case e of Fetch r \<Rightarrow> True | _ \<Rightarrow> False)"

text \<open>The page at the moment \<^verbatim>\<open>handleSubmit\<close> calls \<^verbatim>\<open>triggerWorkflow\<close>, app.js lines 37-39.\<close>

definition beforeDispatch :: "page \<Rightarrow> page" where
  "beforeDispatch s =
     showStatus ''Triggering download workflow...'' ''info''
       (setLoading True
          (saveRepoInfo (repoOwner (getFormData s)) (repoName (getFormData s)) s))"

text \<open>
  A later state of the same page: the storage is as it was and the trace has only grown.
\<close>

definition later :: "page \<Rightarrow> page \<Rightarrow> bool" where
  "later s t = (localStorage t = localStorage s \<and> prefix (trace s) (trace t))"



subsection \<open>Concrete pages and worlds\<close>

definition exampleInputs :: "string \<Rightarrow> string" where
  "exampleInputs i =
     (if i = ''videoUrl'' then ''https://www.youtube.com/watch?v=abc''
      else if i = ''githubToken'' then ''ghp_token''
      else if i = ''downloadType'' then ''video''
      else if i = ''repoOwner'' then ''octocat''
      else if i = ''repoName'' then ''videos''
      else [])"

definition examplePage :: page where
  "examplePage =
     \<lparr>localStorage = Map.empty, inputs = exampleInputs, messageText = [], messageClass = [],
      loading = False, trace = []\<rparr>"

text \<open>The same page reloaded: the form is empty again, the storage is the given one.\<close>

definition reloadedPage :: "(string \<Rightarrow> string option) \<Rightarrow> page" where
  "reloadedPage st =
     \<lparr>localStorage = st, inputs = (\<lambda>i. []), messageText = [], messageClass = [],
      loading = False, trace = []\<rparr>"

definition exampleForm :: formData where
  "exampleForm =
     \<lparr>videoUrl = ''https://www.youtube.com/watch?v=abc'', githubToken = ''ghp_token'',
      downloadType = ''video'', repoOwner = ''octocat'', repoName = ''videos''\<rparr>"

definition okResponse :: "jsval \<Rightarrow> fetch_result" where
  "okResponse v = Resolved \<lparr>status = 200, statusText = ''OK'', json = Some v\<rparr>"

definition noContent :: fetch_result where
  "noContent = Resolved \<lparr>status = 204, statusText = ''No Content'', json = None\<rparr>"

definition runJson :: "string \<Rightarrow> jsval \<Rightarrow> jsval" where
  "runJson st c = JObj [(''id'', JNum 42), (''status'', JStr st), (''conclusion'', c)]"

definition runsListing :: "jsval list \<Rightarrow> fetch_result" where
  "runsListing rs = okResponse (JObj [(''total_count'', JNum (int (length rs))), (''workflow_runs'', JArr rs)])"

definition exampleWorld :: "fetch_result \<Rightarrow> fetch_result \<Rightarrow> (nat \<Rightarrow> fetch_result) \<Rightarrow> world" where
  "exampleWorld disp runs st =
     \<lparr>now = ''2024-01-01T00:00:00.000Z'', engineMessage = (\<lambda>e. ''Failed to fetch''),
      dispatchResponse = disp, runsResponse = runs, statusResponse = st\<rparr>"

text \<open>The first status request fails; every later one would find the run succeeded.\<close>

definition failsOnce :: "nat \<Rightarrow> fetch_result" where
  "failsOnce n = (if n = 1 then Rejected else okResponse (runJson ''completed'' (JStr ''success'')))"

text \<open>The run is in progress for two ticks and has succeeded at the third.\<close>

definition succeedsThird :: "nat \<Rightarrow> fetch_result" where
  "succeedsThird n =
     (if n < 3 then okResponse (runJson ''in_progress'' JNull)
      else okResponse (runJson ''completed'' (JStr ''success'')))"

definition alwaysInProgress :: "nat \<Rightarrow> fetch_result" where
  "alwaysInProgress n = okResponse (runJson ''in_progress'' JNull)"

text \<open>The run is still queued at the first tick and in progress afterwards.\<close>

definition queuedFirst :: "nat \<Rightarrow> fetch_result" where
  "queuedFirst n =
     (if n = 1 then okResponse (runJson ''queued'' JNull)
      else okResponse (runJson ''in_progress'' JNull))"

text \<open>A world for the poll loop: the dispatch was accepted and the listing named run 42.\<close>

definition pollWorld :: "(nat \<Rightarrow> fetch_result) \<Rightarrow> world" where
  "pollWorld st = exampleWorld noContent (runsListing [runJson ''queued'' JNull]) st"

text \<open>The dispatch is accepted and the listing of runs is empty.\<close>

definition noRunWorld :: world where
  "noRunWorld = exampleWorld noContent (runsListing []) failsOnce"

text \<open>The dispatch is answered with the given status, status text and JSON body.\<close>

definition refusingWorld :: "nat \<Rightarrow> string \<Rightarrow> jsval option \<Rightarrow> world" where
  "refusingWorld code text b =
     exampleWorld (Resolved \<lparr>status = code, statusText = text, json = b\<rparr>) (runsListing []) failsOnce"

text \<open>The example page with the credential left empty, and with the output mode left empty.\<close>

definition noTokenPage :: page where
  "noTokenPage = examplePage\<lparr>inputs := exampleInputs(''githubToken'' := [])\<rparr>"

definition noTypePage :: page where
  "noTypePage = examplePage\<lparr>inputs := exampleInputs(''downloadType'' := [])\<rparr>"

text \<open>The run was cancelled: completed, with a conclusion that is neither success nor failure.\<close>

definition cancelled :: "nat \<Rightarrow> fetch_result" where
  "cancelled n = okResponse (runJson ''completed'' (JStr ''cancelled''))"

section \<open>Basic facts\<close>



lemmas page_ops =
  emit_def showStatus_def setLoading_def loadDownloads_def showWorkflowLink_def
  consoleError_def setItem_def setValue_def saveRepoInfo_def

lemma later_refl: "later s s"
  by (simp add: later_def)

lemma later_trans: "later s t \<Longrightarrow> later t u \<Longrightarrow> later s u"
  by (auto simp: later_def)

lemma later_ops:
  "later s (emit e s)"
  "later s (showStatus m t s)"
  "later s (setLoading b s)"
  "later s (loadDownloads s)"
  "later s (showWorkflowLink ow rp run s)"
  "later s (consoleError err s)"
  by (simp_all add: later_def page_ops)

lemma later_step:
  "later s t \<Longrightarrow> later s (emit e t)"
  "later s t \<Longrightarrow> later s (showStatus m ty t)"
  "later s t \<Longrightarrow> later s (setLoading b t)"
  "later s t \<Longrightarrow> later s (loadDownloads t)"
  "later s t \<Longrightarrow> later s (showWorkflowLink ow rp run t)"
  "later s t \<Longrightarrow> later s (consoleError err t)"
  by (blast intro: later_trans later_ops)+

section \<open>Facts about validation and the form controller\<close>

lemma validateForm_pass: "fst (validateForm d s) \<Longrightarrow> validateForm d s = (True, s)"
  by (simp add: validateForm_def split: if_splits)

lemma validateForm_filled:
  "fst (validateForm d s) \<Longrightarrow> repoOwner d \<noteq> [] \<and> repoName d \<noteq> []"
  by (simp add: validateForm_def split: if_splits)

lemma handleSubmit_valid:
  assumes "fst (validateForm (getFormData s) s)"
  shows "handleSubmit w s =
     (case triggerWorkflow w (getFormData s) (beforeDispatch s) of
        (Inr result, s5) \<Rightarrow>
          if success result then
            pollWorkflowStatus w (getFormData s) (runId result) (setLoading False)
              (showWorkflowLink (repoOwner (getFormData s)) (repoName (getFormData s)) (runId result)
                 (showStatus
                    (''Workflow triggered successfully! Run ID: '' @ toString (runId result))
                    ''success'' s5))
          else
            setLoading False (showStatus (''Error: '' @ errorMessage w (Error [])) ''error'' s5)
      | (Inl error, s5) \<Rightarrow>
          setLoading False (showStatus (''Error: '' @ errorMessage w error) ''error'' s5))"
  unfolding handleSubmit_def Let_def validateForm_pass [OF assms] beforeDispatch_def
  by simp

lemma triggerWorkflow_not_ok:
  assumes "dispatchResponse w = Resolved r" and "\<not> ok r"
  shows "triggerWorkflow w d s =
     (case getProp (case json r of None \<Rightarrow> JObj [] | Some v \<Rightarrow> v) ''message'' of
        Inl e \<Rightarrow> (Inl e, emit (Fetch (dispatchRequest w d)) s)
      | Inr m \<Rightarrow>
          (Inl (Error (if truthy m then toString m
                       else ''HTTP '' @ show_nat (status r) @ '': '' @ statusText r)),
           emit (Fetch (dispatchRequest w d)) s))"
  using assms by (simp add: triggerWorkflow_def Let_def)

lemma triggerWorkflow_ok:
  assumes "dispatchResponse w = Resolved r" and "ok r" and "latestRunId w = Inr i"
  shows "triggerWorkflow w d s =
     (Inr \<lparr>success = True, runId = i\<rparr>,
      emit (Fetch (runsRequest d)) (emit (SetTimeout 2000) (emit (Fetch (dispatchRequest w d)) s)))"
  using assms by (simp add: triggerWorkflow_def getLatestWorkflowRun_def Let_def)

lemma triggerWorkflow_later:
  "later (emit (Fetch (dispatchRequest w d)) s) (snd (triggerWorkflow w d s))"
  by (auto simp: triggerWorkflow_def getLatestWorkflowRun_def Let_def
      split: fetch_result.splits sum.splits
      intro: later_refl later_step)

section \<open>Facts about the poll loop\<close>

lemma poll_fetch_error:
  "checkWorkflowStatus w (n + 1) = Inl e \<Longrightarrow>
   poll w d run k n s = consoleError e (k (emit (Fetch (statusRequest d run)) s))"
  by (simp add: poll.simps [of w d run k n s])

lemma poll_success:
  "checkWorkflowStatus w (n + 1) = Inr st \<Longrightarrow> getProp st ''conclusion'' = Inr (JStr ''success'') \<Longrightarrow>
   poll w d run k n s =
     loadDownloads (showStatus ''Download completed successfully!'' ''success''
       (k (emit (Fetch (statusRequest d run)) s)))"
  by (simp add: poll.simps [of w d run k n s])

lemma not_concluded:
  assumes "getProp st ''status'' = Inr l"
    and "getProp st ''conclusion'' \<noteq> Inr (JStr ''success'')"
    and "getProp st ''conclusion'' \<noteq> Inr (JStr ''failure'')"
  obtains c where "getProp st ''conclusion'' = Inr c" "c \<noteq> JStr ''success''" "c \<noteq> JStr ''failure''"
proof -
  from assms(1) obtain c where "getProp st ''conclusion'' = Inr c"
    by (cases st) simp_all
  with assms(2,3) that show thesis by simp
qed

lemma poll_in_progress_step:
  assumes "checkWorkflowStatus w (n + 1) = Inr st"
    and "getProp st ''status'' = Inr (JStr ''in_progress'')"
    and "getProp st ''conclusion'' \<noteq> Inr (JStr ''success'')"
    and "getProp st ''conclusion'' \<noteq> Inr (JStr ''failure'')"
    and "n + 1 < maxAttempts"
  shows "poll w d run k n s =
         poll w d run id (n + 1)
           (emit (SetTimeout 10000)
              (showStatus (progressMessage (n + 1)) ''info''
                 (k (emit (Fetch (statusRequest d run)) s))))"
proof -
  from assms(2-4) obtain c where
    "getProp st ''conclusion'' = Inr c" "c \<noteq> JStr ''success''" "c \<noteq> JStr ''failure''"
    by (rule not_concluded)
  with assms(1,2,5) show ?thesis
    by (simp add: poll.simps [of w d run k n s])
qed

lemma poll_budget_exhausted:
  assumes "checkWorkflowStatus w (n + 1) = Inr st"
    and "getProp st ''status'' = Inr (JStr ''in_progress'')"
    and "getProp st ''conclusion'' \<noteq> Inr (JStr ''success'')"
    and "getProp st ''conclusion'' \<noteq> Inr (JStr ''failure'')"
    and "n + 1 = maxAttempts"
  shows "poll w d run k n s =
         showStatus ''Polling timeout. Please check workflow manually.'' ''warning''
           (k (emit (Fetch (statusRequest d run)) s))"
proof -
  from assms(2-4) obtain c where
    "getProp st ''conclusion'' = Inr c" "c \<noteq> JStr ''success''" "c \<noteq> JStr ''failure''"
    by (rule not_concluded)
  with assms(1,2,5) show ?thesis
    by (simp add: poll.simps [of w d run k n s])
qed

lemma poll_other_status:
  assumes "checkWorkflowStatus w (n + 1) = Inr st"
    and "getProp st ''status'' = Inr l" and "l \<noteq> JStr ''in_progress''"
    and "getProp st ''conclusion'' \<noteq> Inr (JStr ''success'')"
    and "getProp st ''conclusion'' \<noteq> Inr (JStr ''failure'')"
    and "n + 1 < maxAttempts"
  shows "poll w d run k n s = k (emit (Fetch (statusRequest d run)) s)"
proof -
  from assms(2,4,5) obtain c where
    "getProp st ''conclusion'' = Inr c" "c \<noteq> JStr ''success''" "c \<noteq> JStr ''failure''"
    by (rule not_concluded)
  with assms(1,2,3,6) show ?thesis
    by (simp add: poll.simps [of w d run k n s])
qed

lemma poll_stays_in_progress:
  assumes stays: "\<And>i. \<exists>st. checkWorkflowStatus w i = Inr st
            \<and> getProp st ''status'' = Inr (JStr ''in_progress'')
            \<and> getProp st ''conclusion'' \<noteq> Inr (JStr ''success'')
            \<and> getProp st ''conclusion'' \<noteq> Inr (JStr ''failure'')"
  shows "n < maxAttempts \<Longrightarrow>
         poll w d run k n s =
         showStatus ''Polling timeout. Please check workflow manually.'' ''warning''
           (foldl (progressTick d run) (k (emit (Fetch (statusRequest d run)) s))
              [n + 1 ..< maxAttempts])"
proof (induction "maxAttempts - n" arbitrary: n k s)
  case 0
  then show ?case by simp
next
  case (Suc m)
  from stays [of "n + 1"] obtain st where st:
    "checkWorkflowStatus w (n + 1) = Inr st"
    "getProp st ''status'' = Inr (JStr ''in_progress'')"
    "getProp st ''conclusion'' \<noteq> Inr (JStr ''success'')"
    "getProp st ''conclusion'' \<noteq> Inr (JStr ''failure'')"
    by blast
  show ?case
  proof (cases "n + 1 = maxAttempts")
    case True
    with poll_budget_exhausted [OF st True] show ?thesis by simp
  next
    case False
    with Suc.prems have lt: "n + 1 < maxAttempts" by simp
    from Suc.hyps(2) have m: "m = maxAttempts - (n + 1)" by simp
    have upt: "[n + 1 ..< maxAttempts] = (n + 1) # [n + 1 + 1 ..< maxAttempts]"
      using lt by (simp add: upt_rec)
    show ?thesis
      unfolding poll_in_progress_step [OF st lt] Suc.hyps(1) [OF m lt] upt
      by (simp add: progressTick_def)
  qed
qed

lemma trace_foldl_progressTick:
  "trace (foldl (progressTick d run) s is) =
   trace s @ concat (map (\<lambda>i. [ShowStatus (progressMessage i) ''info'', SetTimeout 10000,
                                 Fetch (statusRequest d run)]) is)"
  by (induction "is" arbitrary: s) (simp_all add: progressTick_def emit_def showStatus_def)

lemma count_fetch_ticks:
  "length (filter isFetch (concat (map (\<lambda>i. [ShowStatus (progressMessage i) ''info'',
        SetTimeout 10000, Fetch r]) is))) = length is"
  by (induction "is") (simp_all add: isFetch_def)

lemma poll_later:
  "(\<And>t. later t (k t)) \<Longrightarrow> later s (poll w d run k n s)"
proof (induction w d run k n s rule: poll.induct)
  case (1 w d run k attempts0 s)
  let ?s1 = "k (emit (Fetch (statusRequest d run)) s)"
  have s1: "later s ?s1"
    by (rule later_trans [OF later_ops(1) "1.prems"])
  have idl: "\<And>t. later t (id t)"
    by (simp add: later_refl)
  have rec: "later s (poll w d run id (attempts0 + 1)
        (emit (SetTimeout 10000) (showStatus (progressMessage (attempts0 + 1)) ''info'' ?s1)))"
    if "checkWorkflowStatus w (attempts0 + 1) = Inr st" "getProp st ''conclusion'' = Inr c"
       "c \<noteq> JStr ''success''" "c \<noteq> JStr ''failure''" "getProp st ''status'' = Inr l"
       "l = JStr ''in_progress'' \<and> attempts0 + 1 < maxAttempts"
    for st c l
    using "1.IH" [OF refl refl that(1) that(2) that(3) that(4) that(5) that(6) idl]
      later_step(1) [OF later_step(2) [OF s1]]
    by (rule later_trans [rotated])
  show ?case
    unfolding poll.simps [of w d run k attempts0 s] Let_def
    using rec s1 by (auto split: sum.splits intro: later_step)
qed

lemma pollWorkflowStatus_later:
  "(\<And>t. later t (k t)) \<Longrightarrow> later s (pollWorkflowStatus w d run k s)"
  by (simp add: pollWorkflowStatus_def poll_later)

lemma handleSubmit_later:
  assumes "fst (validateForm (getFormData s) s)"
  shows "later (emit (Fetch (dispatchRequest w (getFormData s))) (beforeDispatch s))
           (handleSubmit w s)"
proof -
  obtain res s5 where tw: "triggerWorkflow w (getFormData s) (beforeDispatch s) = (res, s5)"
    by (cases "triggerWorkflow w (getFormData s) (beforeDispatch s)")
  from triggerWorkflow_later [of w "getFormData s" "beforeDispatch s"] tw
  have s5: "later (emit (Fetch (dispatchRequest w (getFormData s))) (beforeDispatch s)) s5"
    by simp
  have k: "\<And>t. later t (setLoading False t)"
    by (rule later_ops)
  show ?thesis
    unfolding handleSubmit_valid [OF assms] tw
    by (auto split: sum.splits
        intro: later_step s5 later_trans [OF _ pollWorkflowStatus_later [OF k]])
qed

lemma handleSubmit_storage:
  assumes "fst (validateForm (getFormData s) s)"
  shows "localStorage (handleSubmit w s) =
      (localStorage s)(''repoOwner'' \<mapsto> inputs s ''repoOwner'', ''repoName'' \<mapsto> inputs s ''repoName'')"
  using handleSubmit_later [OF assms, of w]
  by (simp add: later_def page_ops beforeDispatch_def getFormData_def)

lemma pollWorkflowStatus_truthy:
  "truthy run \<Longrightarrow> pollWorkflowStatus w d run k s = poll w d run k 0 s"
  by (simp add: pollWorkflowStatus_def)

lemma pollWorkflowStatus_falsy:
  "\<not> truthy run \<Longrightarrow> pollWorkflowStatus w d run k s = k s"
  by (simp add: pollWorkflowStatus_def)

section \<open>Claims\<close>

subsection \<open>C3: the URL classifier\<close>




subsection \<open>C1: a status request that fails\<close>

text \<open>
  C1, as the code has it. When the status request of a poll tick fails (the request rejects,
  the response is not ok, or its body is not JSON), the error is logged to the console and the
  poll loop ends at that tick: no further tick is scheduled, no further request is sent, and
  the status line keeps the text it had.
\<close>

theorem poll_fetch_failure_ends_loop:
  assumes "checkWorkflowStatus w (n + 1) = Inl e"
  shows "poll w d run k n s = consoleError e (k (emit (Fetch (statusRequest d run)) s))
    \<and> trace (poll w d run k n s) =
        trace (k (emit (Fetch (statusRequest d run)) s))
          @ [ConsoleError ''Error polling workflow status:'' e]
    \<and> messageText (poll w d run k n s) = messageText (k (emit (Fetch (statusRequest d run)) s))"
  unfolding poll_fetch_error [OF assms] by (simp add: page_ops)

theorem poll_fetch_failure_ends_loop_witness:
  "checkWorkflowStatus (pollWorld failsOnce) (0 + 1) = Inl FetchFailed
   \<and> poll (pollWorld failsOnce) exampleForm (JNum 42) id 0 examplePage =
       consoleError FetchFailed (id (emit (Fetch (statusRequest exampleForm (JNum 42))) examplePage))"
proof -
  have h: "checkWorkflowStatus (pollWorld failsOnce) (0 + 1) = Inl FetchFailed"
    by code_simp
  from poll_fetch_failure_ends_loop [OF h] h show ?thesis by blast
qed

text \<open>
  C1 as stated fails: the first status request is rejected, the run would be reported as
  succeeded from the second request on, and the poll has made one request, logged the error
  and stopped, with one attempt of thirty used and no conclusion seen.
\<close>

theorem poll_fetch_failure_counterexample:
  "checkWorkflowStatus (pollWorld failsOnce) 1 = Inl FetchFailed
   \<and> checkWorkflowStatus (pollWorld failsOnce) 2 = Inr (runJson ''completed'' (JStr ''success''))
   \<and> trace (poll (pollWorld failsOnce) exampleForm (JNum 42) id 0 examplePage) =
       [Fetch (statusRequest exampleForm (JNum 42)),
        ConsoleError ''Error polling workflow status:'' FetchFailed]"
  by code_simp

subsection \<open>C4: a run that stays in progress\<close>

text \<open>
  C4. For a run identifier that is truthy, when every status request finds the run
  \<^verbatim>\<open>in_progress\<close> (and not concluded as success or failure), \<^verbatim>\<open>pollWorkflowStatus\<close> starts the
  poll with the counter at zero and the poll sends exactly \<open>maxAttempts = 30\<close> status requests:
  the first, and one after each of the 29 progress messages with its timer. The thirtieth
  tick reports the timeout as a warning, and nothing is scheduled after it.
\<close>

theorem poll_timeout_after_budget:
  assumes "truthy run"
    and "\<And>i. \<exists>st. checkWorkflowStatus w i = Inr st
            \<and> getProp st ''status'' = Inr (JStr ''in_progress'')
            \<and> getProp st ''conclusion'' \<noteq> Inr (JStr ''success'')
            \<and> getProp st ''conclusion'' \<noteq> Inr (JStr ''failure'')"
  shows "maxAttempts = 30
    \<and> trace (pollWorkflowStatus w d run k s) =
        trace (k (emit (Fetch (statusRequest d run)) s))
          @ concat (map (\<lambda>i. [ShowStatus (progressMessage i) ''info'', SetTimeout 10000,
                               Fetch (statusRequest d run)]) [1 ..< maxAttempts])
          @ [ShowStatus ''Polling timeout. Please check workflow manually.'' ''warning'']
    \<and> length (filter isFetch (trace (pollWorkflowStatus w d run k s))) =
        length (filter isFetch (trace (k (emit (Fetch (statusRequest d run)) s)))) + 29
    \<and> length (filter isFetch (trace (pollWorkflowStatus w d run id s))) =
        length (filter isFetch (trace s)) + maxAttempts
    \<and> messageText (pollWorkflowStatus w d run k s) =
        ''Polling timeout. Please check workflow manually.''
    \<and> messageClass (pollWorkflowStatus w d run k s) = ''status-message warning''"
proof -
  have lt: "0 < maxAttempts"
    by (simp add: maxAttempts_def)
  have eq: "pollWorkflowStatus w d run k' s =
      showStatus ''Polling timeout. Please check workflow manually.'' ''warning''
        (foldl (progressTick d run) (k' (emit (Fetch (statusRequest d run)) s))
           [0 + 1 ..< maxAttempts])" for k'
    unfolding pollWorkflowStatus_truthy [OF assms(1)]
    by (rule poll_stays_in_progress [OF assms(2) lt])
  have tr: "trace (pollWorkflowStatus w d run k' s) =
        trace (k' (emit (Fetch (statusRequest d run)) s))
          @ concat (map (\<lambda>i. [ShowStatus (progressMessage i) ''info'', SetTimeout 10000,
                               Fetch (statusRequest d run)]) [1 ..< maxAttempts])
          @ [ShowStatus ''Polling timeout. Please check workflow manually.'' ''warning'']" for k'
    unfolding eq by (simp add: showStatus_def emit_def trace_foldl_progressTick)
  have len: "length [1 ..< maxAttempts] = 29"
    by (simp add: maxAttempts_def)
  have cnt: "length (filter isFetch (trace (pollWorkflowStatus w d run k' s))) =
        length (filter isFetch (trace (k' (emit (Fetch (statusRequest d run)) s)))) + 29" for k'
    unfolding tr filter_append length_append count_fetch_ticks len
    by (simp add: isFetch_def)
  have cnt_id: "length (filter isFetch (trace (pollWorkflowStatus w d run id s))) =
        length (filter isFetch (trace s)) + maxAttempts"
    unfolding cnt [of id] by (simp add: emit_def isFetch_def maxAttempts_def)
  have msg: "messageText (pollWorkflowStatus w d run k s) =
        ''Polling timeout. Please check workflow manually.''"
    "messageClass (pollWorkflowStatus w d run k s) = ''status-message warning''"
    unfolding eq by (simp_all add: showStatus_def emit_def)
  have m: "maxAttempts = 30"
    by (simp add: maxAttempts_def)
  from m tr [of k] cnt [of k] cnt_id msg show ?thesis
    by blast
qed

theorem poll_timeout_after_budget_witness:
  "truthy (JNum 42)
   \<and> (\<forall>i. \<exists>st. checkWorkflowStatus (pollWorld alwaysInProgress) i = Inr st
            \<and> getProp st ''status'' = Inr (JStr ''in_progress'')
            \<and> getProp st ''conclusion'' \<noteq> Inr (JStr ''success'')
            \<and> getProp st ''conclusion'' \<noteq> Inr (JStr ''failure''))
   \<and> length (filter isFetch (trace (pollWorkflowStatus (pollWorld alwaysInProgress) exampleForm
        (JNum 42) id examplePage))) = 30
   \<and> messageText (pollWorkflowStatus (pollWorld alwaysInProgress) exampleForm (JNum 42) id
        examplePage) = ''Polling timeout. Please check workflow manually.''"
proof -
  have r: "truthy (JNum 42)"
    by simp
  have h: "\<exists>st. checkWorkflowStatus (pollWorld alwaysInProgress) i = Inr st
            \<and> getProp st ''status'' = Inr (JStr ''in_progress'')
            \<and> getProp st ''conclusion'' \<noteq> Inr (JStr ''success'')
            \<and> getProp st ''conclusion'' \<noteq> Inr (JStr ''failure'')" for i
    by (simp add: checkWorkflowStatus_def pollWorld_def exampleWorld_def alwaysInProgress_def
        okResponse_def ok_def runJson_def)
  have t: "trace examplePage = []"
    by (simp add: examplePage_def)
  note th = poll_timeout_after_budget
    [of "JNum 42" "pollWorld alwaysInProgress" exampleForm id examplePage, OF r h]
  from th have "length (filter isFetch (trace (pollWorkflowStatus (pollWorld alwaysInProgress)
        exampleForm (JNum 42) id examplePage))) =
        length (filter isFetch (trace examplePage)) + maxAttempts"
    by blast
  then have cnt: "length (filter isFetch (trace (pollWorkflowStatus (pollWorld alwaysInProgress)
        exampleForm (JNum 42) id examplePage))) = 30"
    by (simp add: t maxAttempts_def)
  from th have msg: "messageText (pollWorkflowStatus (pollWorld alwaysInProgress) exampleForm
        (JNum 42) id examplePage) = ''Polling timeout. Please check workflow manually.''"
    by blast
  from r h cnt msg show ?thesis
    by blast
qed

subsection \<open>C7: two ticks in progress, then success\<close>

text \<open>
  C7. For a run identifier that is truthy, when the first two status requests find the run
  \<^verbatim>\<open>in_progress\<close> and the third finds the conclusion \<^verbatim>\<open>success\<close>, \<^verbatim>\<open>pollWorkflowStatus\<close> sends the
  first request, reports progress exactly twice, as (1/30) and (2/30), each followed by the
  timer and the next request, then reports success and refreshes the downloads listing;
  nothing follows.
\<close>

theorem poll_progress_twice_then_success:
  assumes "truthy run"
    and "checkWorkflowStatus w 1 = Inr st1"
    and "getProp st1 ''status'' = Inr (JStr ''in_progress'')"
    and "getProp st1 ''conclusion'' \<noteq> Inr (JStr ''success'')"
    and "getProp st1 ''conclusion'' \<noteq> Inr (JStr ''failure'')"
    and "checkWorkflowStatus w 2 = Inr st2"
    and "getProp st2 ''status'' = Inr (JStr ''in_progress'')"
    and "getProp st2 ''conclusion'' \<noteq> Inr (JStr ''success'')"
    and "getProp st2 ''conclusion'' \<noteq> Inr (JStr ''failure'')"
    and "checkWorkflowStatus w 3 = Inr st3"
    and "getProp st3 ''conclusion'' = Inr (JStr ''success'')"
  shows "trace (pollWorkflowStatus w d run k s) =
      trace (k (emit (Fetch (statusRequest d run)) s)) @
        [ShowStatus ''Download in progress... (1/30)'' ''info'', SetTimeout 10000,
         Fetch (statusRequest d run),
         ShowStatus ''Download in progress... (2/30)'' ''info'', SetTimeout 10000,
         Fetch (statusRequest d run),
         ShowStatus ''Download completed successfully!'' ''success'', LoadDownloads]
    \<and> trace (pollWorkflowStatus w d run id s) =
      trace s @
        [Fetch (statusRequest d run),
         ShowStatus ''Download in progress... (1/30)'' ''info'', SetTimeout 10000,
         Fetch (statusRequest d run),
         ShowStatus ''Download in progress... (2/30)'' ''info'', SetTimeout 10000,
         Fetch (statusRequest d run),
         ShowStatus ''Download completed successfully!'' ''success'', LoadDownloads]
    \<and> messageText (pollWorkflowStatus w d run k s) = ''Download completed successfully!''
    \<and> messageClass (pollWorkflowStatus w d run k s) = ''status-message success''"
proof -
  have p1: "progressMessage 1 = ''Download in progress... (1/30)''"
    by code_simp
  have p2: "progressMessage 2 = ''Download in progress... (2/30)''"
    by code_simp
  have n1: "(0::nat) + 1 = 1" and n2: "(1::nat) + 1 = 2" and n3: "(2::nat) + 1 = 3"
    by simp_all
  have m: "(0::nat) + 1 < maxAttempts" "(1::nat) + 1 < maxAttempts"
    by (simp_all add: maxAttempts_def)
  have a1: "checkWorkflowStatus w (0 + 1) = Inr st1"
    unfolding n1 by (rule assms(2))
  have a2: "checkWorkflowStatus w (1 + 1) = Inr st2"
    unfolding n2 by (rule assms(6))
  have a3: "checkWorkflowStatus w (2 + 1) = Inr st3"
    unfolding n3 by (rule assms(10))
  note t0 = pollWorkflowStatus_truthy [OF assms(1)]
  note t1 = poll_in_progress_step [OF a1 assms(3-5) m(1), of d run, unfolded n1]
  note t2 = poll_in_progress_step [OF a2 assms(7-9) m(2), of d run id, unfolded n2]
  note t3 = poll_success [OF a3 assms(11), of d run id]
  have 1: "trace (pollWorkflowStatus w d run k' s) =
      trace (k' (emit (Fetch (statusRequest d run)) s)) @
        [ShowStatus ''Download in progress... (1/30)'' ''info'', SetTimeout 10000,
         Fetch (statusRequest d run),
         ShowStatus ''Download in progress... (2/30)'' ''info'', SetTimeout 10000,
         Fetch (statusRequest d run),
         ShowStatus ''Download completed successfully!'' ''success'', LoadDownloads]" for k'
    unfolding t0 t1 t2 t3 p1 p2 by (simp add: page_ops)
  have 2: "trace (pollWorkflowStatus w d run id s) =
      trace s @
        [Fetch (statusRequest d run),
         ShowStatus ''Download in progress... (1/30)'' ''info'', SetTimeout 10000,
         Fetch (statusRequest d run),
         ShowStatus ''Download in progress... (2/30)'' ''info'', SetTimeout 10000,
         Fetch (statusRequest d run),
         ShowStatus ''Download completed successfully!'' ''success'', LoadDownloads]"
    unfolding 1 [of id] by (simp add: emit_def)
  have 3: "messageText (pollWorkflowStatus w d run k s) = ''Download completed successfully!''"
    "messageClass (pollWorkflowStatus w d run k s) = ''status-message success''"
    unfolding t0 t1 t2 t3 by (simp_all add: page_ops)
  from 1 [of k] 2 3 show ?thesis
    by blast
qed

theorem poll_progress_twice_then_success_witness:
  "truthy (JNum 42)
   \<and> checkWorkflowStatus (pollWorld succeedsThird) 1 = Inr (runJson ''in_progress'' JNull)
   \<and> checkWorkflowStatus (pollWorld succeedsThird) 2 = Inr (runJson ''in_progress'' JNull)
   \<and> checkWorkflowStatus (pollWorld succeedsThird) 3 = Inr (runJson ''completed'' (JStr ''success''))
   \<and> trace (pollWorkflowStatus (pollWorld succeedsThird) exampleForm (JNum 42) id examplePage) =
      [Fetch (statusRequest exampleForm (JNum 42)),
       ShowStatus ''Download in progress... (1/30)'' ''info'', SetTimeout 10000,
       Fetch (statusRequest exampleForm (JNum 42)),
       ShowStatus ''Download in progress... (2/30)'' ''info'', SetTimeout 10000,
       Fetch (statusRequest exampleForm (JNum 42)),
       ShowStatus ''Download completed successfully!'' ''success'', LoadDownloads]"
proof -
  have r: "truthy (JNum 42)"
    by simp
  have a: "checkWorkflowStatus (pollWorld succeedsThird) 1 = Inr (runJson ''in_progress'' JNull)"
    by code_simp
  have b: "checkWorkflowStatus (pollWorld succeedsThird) 2 = Inr (runJson ''in_progress'' JNull)"
    by code_simp
  have c: "checkWorkflowStatus (pollWorld succeedsThird) 3 = Inr (runJson ''completed'' (JStr ''success''))"
    by code_simp
  have ip: "getProp (runJson ''in_progress'' JNull) ''status'' = Inr (JStr ''in_progress'')"
    "getProp (runJson ''in_progress'' JNull) ''conclusion'' \<noteq> Inr (JStr ''success'')"
    "getProp (runJson ''in_progress'' JNull) ''conclusion'' \<noteq> Inr (JStr ''failure'')"
    by (simp_all add: runJson_def)
  have su: "getProp (runJson ''completed'' (JStr ''success'')) ''conclusion'' = Inr (JStr ''success'')"
    by (simp add: runJson_def)
  have t: "trace examplePage = []"
    by (simp add: examplePage_def)
  from poll_progress_twice_then_success [OF r a ip b ip c su, of exampleForm id examplePage]
  have "trace (pollWorkflowStatus (pollWorld succeedsThird) exampleForm (JNum 42) id examplePage) =
      trace examplePage @
      [Fetch (statusRequest exampleForm (JNum 42)),
       ShowStatus ''Download in progress... (1/30)'' ''info'', SetTimeout 10000,
       Fetch (statusRequest exampleForm (JNum 42)),
       ShowStatus ''Download in progress... (2/30)'' ''info'', SetTimeout 10000,
       Fetch (statusRequest exampleForm (JNum 42)),
       ShowStatus ''Download completed successfully!'' ''success'', LoadDownloads]"
    by blast
  with r a b c t show ?thesis
    by simp
qed

subsection \<open>C9: a status that is neither concluded nor in progress\<close>

text \<open>
  C9. When a tick below the attempt budget finds a run whose conclusion is neither \<^verbatim>\<open>success\<close>
  nor \<^verbatim>\<open>failure\<close> and whose status is not \<^verbatim>\<open>in_progress\<close>, the poll ends there without a trace:
  the page is the one left by sending the request, so no timer is set, no further request is
  sent, and no success, failure or timeout message is shown.
\<close>

theorem poll_stops_silently:
  assumes "checkWorkflowStatus w (n + 1) = Inr st"
    and "getProp st ''status'' = Inr l" and "l \<noteq> JStr ''in_progress''"
    and "getProp st ''conclusion'' \<noteq> Inr (JStr ''success'')"
    and "getProp st ''conclusion'' \<noteq> Inr (JStr ''failure'')"
    and "n + 1 < maxAttempts"
  shows "poll w d run k n s = k (emit (Fetch (statusRequest d run)) s)"
  using assms by (rule poll_other_status)

theorem poll_stops_silently_witness:
  "checkWorkflowStatus (pollWorld queuedFirst) (0 + 1) = Inr (runJson ''queued'' JNull)
   \<and> getProp (runJson ''queued'' JNull) ''status'' = Inr (JStr ''queued'')
   \<and> JStr ''queued'' \<noteq> JStr ''in_progress''
   \<and> getProp (runJson ''queued'' JNull) ''conclusion'' \<noteq> Inr (JStr ''success'')
   \<and> getProp (runJson ''queued'' JNull) ''conclusion'' \<noteq> Inr (JStr ''failure'')
   \<and> 0 + 1 < maxAttempts
   \<and> poll (pollWorld queuedFirst) exampleForm (JNum 42) id 0 examplePage =
       id (emit (Fetch (statusRequest exampleForm (JNum 42))) examplePage)
   \<and> checkWorkflowStatus (pollWorld cancelled) (0 + 1) = Inr (runJson ''completed'' (JStr ''cancelled''))
   \<and> poll (pollWorld cancelled) exampleForm (JNum 42) id 0 examplePage =
       id (emit (Fetch (statusRequest exampleForm (JNum 42))) examplePage)"
proof -
  have a: "checkWorkflowStatus (pollWorld queuedFirst) (0 + 1) = Inr (runJson ''queued'' JNull)"
    by code_simp
  have b: "getProp (runJson ''queued'' JNull) ''status'' = Inr (JStr ''queued'')"
    by (simp add: runJson_def)
  have c: "JStr ''queued'' \<noteq> JStr ''in_progress''"
    by simp
  have d: "getProp (runJson ''queued'' JNull) ''conclusion'' \<noteq> Inr (JStr ''success'')"
    by (simp add: runJson_def)
  have e: "getProp (runJson ''queued'' JNull) ''conclusion'' \<noteq> Inr (JStr ''failure'')"
    by (simp add: runJson_def)
  have f: "0 + 1 < maxAttempts"
    by (simp add: maxAttempts_def)
  have a': "checkWorkflowStatus (pollWorld cancelled) (0 + 1) = Inr (runJson ''completed'' (JStr ''cancelled''))"
    by code_simp
  have b': "getProp (runJson ''completed'' (JStr ''cancelled'')) ''status'' = Inr (JStr ''completed'')"
    by (simp add: runJson_def)
  have c': "JStr ''completed'' \<noteq> JStr ''in_progress''"
    by simp
  have d': "getProp (runJson ''completed'' (JStr ''cancelled'')) ''conclusion'' \<noteq> Inr (JStr ''success'')"
    by (simp add: runJson_def)
  have e': "getProp (runJson ''completed'' (JStr ''cancelled'')) ''conclusion'' \<noteq> Inr (JStr ''failure'')"
    by (simp add: runJson_def)
  from poll_stops_silently [OF a b c d e f] poll_stops_silently [OF a' b' c' d' e' f]
    a b c d e f a' show ?thesis
    by blast
qed

subsection \<open>C2: no run identifier\<close>

text \<open>
  C2, as the code has it. When the dispatch is accepted and the run locator resolves no run
  identifier (\<^verbatim>\<open>null\<close>, its not-found value, or any other falsy value), \<^verbatim>\<open>pollWorkflowStatus\<close>
  returns at its guard: no status request is sent and no timer is set for a tick. The
  submission is not reported as an error: the status line keeps the success message of the
  accepted dispatch, which ends with the identifier as printed, and its type is \<^verbatim>\<open>success\<close>; the
  button is enabled again.
\<close>

theorem handleSubmit_no_run_id:
  assumes "fst (validateForm (getFormData s) s)"
    and "dispatchResponse w = Resolved r" and "ok r"
    and "latestRunId w = Inr run" and "\<not> truthy run"
  shows "pollWorkflowStatus w d run k t = k t
    \<and> trace (handleSubmit w s) =
      trace s @
        [StorageSet ''repoOwner'' (inputs s ''repoOwner''),
         StorageSet ''repoName'' (inputs s ''repoName''),
         SetLoading True,
         ShowStatus ''Triggering download workflow...'' ''info'',
         Fetch (dispatchRequest w (getFormData s)),
         SetTimeout 2000,
         Fetch (runsRequest (getFormData s)),
         ShowStatus (''Workflow triggered successfully! Run ID: '' @ toString run) ''success'',
         ShowWorkflowLink (''https://github.com/'' @ inputs s ''repoOwner'' @ ''/''
            @ inputs s ''repoName'' @ ''/actions/runs/'' @ toString run),
         SetLoading False]
    \<and> filter isFetch (trace (handleSubmit w s)) =
        filter isFetch (trace s)
          @ [Fetch (dispatchRequest w (getFormData s)), Fetch (runsRequest (getFormData s))]
    \<and> messageText (handleSubmit w s) = ''Workflow triggered successfully! Run ID: '' @ toString run
    \<and> messageClass (handleSubmit w s) = ''status-message success''
    \<and> messageClass (handleSubmit w s) \<noteq> ''status-message error''"
proof -
  have skip: "pollWorkflowStatus w d run k t = k t"
    by (rule pollWorkflowStatus_falsy [OF assms(5)])
  have eq: "handleSubmit w s =
      setLoading False
        (showWorkflowLink (repoOwner (getFormData s)) (repoName (getFormData s)) run
           (showStatus (''Workflow triggered successfully! Run ID: '' @ toString run) ''success''
              (emit (Fetch (runsRequest (getFormData s)))
                 (emit (SetTimeout 2000)
                    (emit (Fetch (dispatchRequest w (getFormData s))) (beforeDispatch s))))))"
    unfolding handleSubmit_valid [OF assms(1)] triggerWorkflow_ok [OF assms(2-4)]
    using assms(5) by (simp add: pollWorkflowStatus_def)
  have tr: "trace (handleSubmit w s) =
      trace s @
        [StorageSet ''repoOwner'' (inputs s ''repoOwner''),
         StorageSet ''repoName'' (inputs s ''repoName''),
         SetLoading True,
         ShowStatus ''Triggering download workflow...'' ''info'',
         Fetch (dispatchRequest w (getFormData s)),
         SetTimeout 2000,
         Fetch (runsRequest (getFormData s)),
         ShowStatus (''Workflow triggered successfully! Run ID: '' @ toString run) ''success'',
         ShowWorkflowLink (''https://github.com/'' @ inputs s ''repoOwner'' @ ''/''
            @ inputs s ''repoName'' @ ''/actions/runs/'' @ toString run),
         SetLoading False]"
    unfolding eq by (simp add: page_ops beforeDispatch_def getFormData_def)
  have fe: "filter isFetch (trace (handleSubmit w s)) =
        filter isFetch (trace s)
          @ [Fetch (dispatchRequest w (getFormData s)), Fetch (runsRequest (getFormData s))]"
    unfolding tr by (simp add: isFetch_def)
  have msg: "messageText (handleSubmit w s) =
        ''Workflow triggered successfully! Run ID: '' @ toString run"
    "messageClass (handleSubmit w s) = ''status-message success''"
    unfolding eq by (simp_all add: page_ops)
  have ne: "messageClass (handleSubmit w s) \<noteq> ''status-message error''"
    unfolding msg(2) by simp
  from skip tr fe msg ne show ?thesis
    by blast
qed

theorem handleSubmit_no_run_id_witness:
  "fst (validateForm (getFormData examplePage) examplePage)
   \<and> dispatchResponse noRunWorld = noContent
   \<and> latestRunId noRunWorld = Inr JNull
   \<and> \<not> truthy JNull
   \<and> filter isFetch (trace (handleSubmit noRunWorld examplePage)) =
       [Fetch (dispatchRequest noRunWorld (getFormData examplePage)),
        Fetch (runsRequest (getFormData examplePage))]
   \<and> messageClass (handleSubmit noRunWorld examplePage) = ''status-message success''"
proof -
  have a: "fst (validateForm (getFormData examplePage) examplePage)"
    by code_simp
  have b: "dispatchResponse noRunWorld = Resolved \<lparr>status = 204, statusText = ''No Content'', json = None\<rparr>"
    by (simp add: noRunWorld_def exampleWorld_def noContent_def)
  have c: "ok \<lparr>status = 204, statusText = ''No Content'', json = None\<rparr>"
    by (simp add: ok_def)
  have d: "latestRunId noRunWorld = Inr JNull"
    by code_simp
  have e: "\<not> truthy JNull"
    by simp
  have t: "trace examplePage = []"
    by (simp add: examplePage_def)
  note th = handleSubmit_no_run_id [OF a b c d e]
  from th have f: "filter isFetch (trace (handleSubmit noRunWorld examplePage)) =
       filter isFetch (trace examplePage)
         @ [Fetch (dispatchRequest noRunWorld (getFormData examplePage)),
            Fetch (runsRequest (getFormData examplePage))]"
    by blast
  from th have g: "messageClass (handleSubmit noRunWorld examplePage) = ''status-message success''"
    by blast
  from a b d e f g t show ?thesis
    by (simp add: noContent_def)
qed

text \<open>
  C2 as stated fails in its second half: with an accepted dispatch and an empty run listing
  the locator gives \<^verbatim>\<open>null\<close>, and the status line ends as a success message, not an error.
\<close>

theorem handleSubmit_no_run_id_counterexample:
  "latestRunId noRunWorld = Inr JNull
   \<and> messageText (handleSubmit noRunWorld examplePage) =
       ''Workflow triggered successfully! Run ID: null''
   \<and> messageClass (handleSubmit noRunWorld examplePage) = ''status-message success''
   \<and> messageClass (handleSubmit noRunWorld examplePage) \<noteq> ''status-message error''"
  by code_simp

subsection \<open>C5: the error of a refused dispatch\<close>

text \<open>
  C5. For a dispatch answered with status 422 and the body \<^verbatim>\<open>{"message":"Bad request"}\<close>, the
  error that \<^verbatim>\<open>triggerWorkflow\<close> throws has exactly the message \<^verbatim>\<open>Bad request\<close>; for a dispatch
  answered with status 500 and a body that is not JSON, its message is \<^verbatim>\<open>HTTP 500: \<close> followed
  by the status text, which contains \<^verbatim>\<open>500\<close>. \<^verbatim>\<open>handleSubmit\<close> shows that message in the status
  line after the label \<^verbatim>\<open>Error: \<close>, with the type \<^verbatim>\<open>error\<close>.
\<close>

theorem dispatch_error_message:
  assumes "fst (validateForm (getFormData s) s)"
  shows "(dispatchResponse w =
            Resolved \<lparr>status = 422, statusText = t,
                      json = Some (JObj [(''message'', JStr ''Bad request'')])\<rparr> \<longrightarrow>
          fst (triggerWorkflow w d p) = Inl (Error ''Bad request'')
          \<and> errorMessage w (Error ''Bad request'') = ''Bad request''
          \<and> messageText (handleSubmit w s) = ''Error: '' @ ''Bad request''
          \<and> messageClass (handleSubmit w s) = ''status-message error'')
    \<and> (dispatchResponse w = Resolved \<lparr>status = 500, statusText = t, json = None\<rparr> \<longrightarrow>
          fst (triggerWorkflow w d p) = Inl (Error (''HTTP 500: '' @ t))
          \<and> sublist ''500'' (errorMessage w (Error (''HTTP 500: '' @ t)))
          \<and> messageText (handleSubmit w s) = ''Error: '' @ ''HTTP 500: '' @ t
          \<and> messageClass (handleSubmit w s) = ''status-message error'')"
proof (intro conjI impI)
  assume r: "dispatchResponse w =
      Resolved \<lparr>status = 422, statusText = t, json = Some (JObj [(''message'', JStr ''Bad request'')])\<rparr>"
  have nok: "\<not> ok \<lparr>status = 422, statusText = t, json = Some (JObj [(''message'', JStr ''Bad request'')])\<rparr>"
    by (simp add: ok_def)
  note tw = triggerWorkflow_not_ok [OF r nok]
  show "fst (triggerWorkflow w d p) = Inl (Error ''Bad request'')"
    unfolding tw by simp
  show "errorMessage w (Error ''Bad request'') = ''Bad request''"
    by (simp add: errorMessage_def)
  show "messageText (handleSubmit w s) = ''Error: '' @ ''Bad request''"
    unfolding handleSubmit_valid [OF assms] tw by (simp add: page_ops errorMessage_def)
  show "messageClass (handleSubmit w s) = ''status-message error''"
    unfolding handleSubmit_valid [OF assms] tw by (simp add: page_ops)
next
  assume r: "dispatchResponse w = Resolved \<lparr>status = 500, statusText = t, json = None\<rparr>"
  have nok: "\<not> ok \<lparr>status = 500, statusText = t, json = None\<rparr>"
    by (simp add: ok_def)
  have n: "show_nat 500 = ''500''"
    by code_simp
  note tw = triggerWorkflow_not_ok [OF r nok]
  show "fst (triggerWorkflow w d p) = Inl (Error (''HTTP 500: '' @ t))"
    unfolding tw by (simp add: n)
  have "sublist ''500'' (''HTTP '' @ ''500'' @ '': '' @ t)"
    by (rule sublist_appendI)
  then show "sublist ''500'' (errorMessage w (Error (''HTTP 500: '' @ t)))"
    by (simp add: errorMessage_def)
  show "messageText (handleSubmit w s) = ''Error: '' @ ''HTTP 500: '' @ t"
    unfolding handleSubmit_valid [OF assms] tw by (simp add: page_ops errorMessage_def n)
  show "messageClass (handleSubmit w s) = ''status-message error''"
    unfolding handleSubmit_valid [OF assms] tw by (simp add: page_ops)
qed

theorem dispatch_error_message_witness:
  "fst (validateForm (getFormData examplePage) examplePage)
   \<and> fst (triggerWorkflow (refusingWorld 422 ''Unprocessable Entity''
            (Some (JObj [(''message'', JStr ''Bad request'')]))) exampleForm examplePage)
       = Inl (Error ''Bad request'')
   \<and> messageText (handleSubmit (refusingWorld 422 ''Unprocessable Entity''
            (Some (JObj [(''message'', JStr ''Bad request'')]))) examplePage)
       = ''Error: Bad request''
   \<and> fst (triggerWorkflow (refusingWorld 500 ''Internal Server Error'' None) exampleForm examplePage)
       = Inl (Error ''HTTP 500: Internal Server Error'')
   \<and> messageText (handleSubmit (refusingWorld 500 ''Internal Server Error'' None) examplePage)
       = ''Error: HTTP 500: Internal Server Error''"
proof -
  have a: "fst (validateForm (getFormData examplePage) examplePage)"
    by code_simp
  have b: "dispatchResponse (refusingWorld 422 ''Unprocessable Entity''
             (Some (JObj [(''message'', JStr ''Bad request'')]))) =
           Resolved \<lparr>status = 422, statusText = ''Unprocessable Entity'',
                     json = Some (JObj [(''message'', JStr ''Bad request'')])\<rparr>"
    by (simp add: refusingWorld_def exampleWorld_def)
  have c: "dispatchResponse (refusingWorld 500 ''Internal Server Error'' None) =
           Resolved \<lparr>status = 500, statusText = ''Internal Server Error'', json = None\<rparr>"
    by (simp add: refusingWorld_def exampleWorld_def)
  from dispatch_error_message [OF a, of "refusingWorld 422 ''Unprocessable Entity''
             (Some (JObj [(''message'', JStr ''Bad request'')]))" "''Unprocessable Entity''"
             exampleForm examplePage] b
  have 1: "fst (triggerWorkflow (refusingWorld 422 ''Unprocessable Entity''
            (Some (JObj [(''message'', JStr ''Bad request'')]))) exampleForm examplePage)
       = Inl (Error ''Bad request'')"
    and 2: "messageText (handleSubmit (refusingWorld 422 ''Unprocessable Entity''
            (Some (JObj [(''message'', JStr ''Bad request'')]))) examplePage)
       = ''Error: '' @ ''Bad request''"
    by blast+
  from dispatch_error_message [OF a, of "refusingWorld 500 ''Internal Server Error'' None"
             "''Internal Server Error''" exampleForm examplePage] c
  have 3: "fst (triggerWorkflow (refusingWorld 500 ''Internal Server Error'' None) exampleForm examplePage)
       = Inl (Error (''HTTP 500: '' @ ''Internal Server Error''))"
    and 4: "messageText (handleSubmit (refusingWorld 500 ''Internal Server Error'' None) examplePage)
       = ''Error: '' @ ''HTTP 500: '' @ ''Internal Server Error''"
    by blast+
  from a 1 2 3 4 show ?thesis
    by simp
qed

subsection \<open>C6: empty required fields\<close>

text \<open>
  C6, as the code has it. When the video URL, the credential, the owner or the repository
  name is empty, \<^verbatim>\<open>handleSubmit\<close> only shows \<^verbatim>\<open>Please fill in all required fields\<close> as an error:
  no request is sent and nothing is saved. The output mode is not among the fields that
  validation checks.
\<close>

theorem handleSubmit_empty_field_blocks:
  assumes "inputs s ''videoUrl'' = [] \<or> inputs s ''githubToken'' = []
           \<or> inputs s ''repoOwner'' = [] \<or> inputs s ''repoName'' = []"
  shows "handleSubmit w s = showStatus ''Please fill in all required fields'' ''error'' s
    \<and> trace (handleSubmit w s) =
        trace s @ [ShowStatus ''Please fill in all required fields'' ''error'']
    \<and> filter isFetch (trace (handleSubmit w s)) = filter isFetch (trace s)
    \<and> localStorage (handleSubmit w s) = localStorage s"
proof -
  from assms have v: "validateForm (getFormData s) s =
      (False, showStatus ''Please fill in all required fields'' ''error'' s)"
    by (simp add: validateForm_def getFormData_def)
  have eq: "handleSubmit w s = showStatus ''Please fill in all required fields'' ''error'' s"
    unfolding handleSubmit_def Let_def v by simp
  show ?thesis
    unfolding eq by (simp add: page_ops isFetch_def)
qed

theorem handleSubmit_empty_field_blocks_witness:
  "(inputs noTokenPage ''videoUrl'' = [] \<or> inputs noTokenPage ''githubToken'' = []
    \<or> inputs noTokenPage ''repoOwner'' = [] \<or> inputs noTokenPage ''repoName'' = [])
   \<and> trace (handleSubmit noRunWorld noTokenPage) =
       [ShowStatus ''Please fill in all required fields'' ''error'']"
proof -
  have a: "inputs noTokenPage ''videoUrl'' = [] \<or> inputs noTokenPage ''githubToken'' = []
    \<or> inputs noTokenPage ''repoOwner'' = [] \<or> inputs noTokenPage ''repoName'' = []"
    by (simp add: noTokenPage_def examplePage_def)
  have t: "trace noTokenPage = []"
    by (simp add: noTokenPage_def examplePage_def)
  from handleSubmit_empty_field_blocks [OF a, of noRunWorld]
  have "trace (handleSubmit noRunWorld noTokenPage) =
      trace noTokenPage @ [ShowStatus ''Please fill in all required fields'' ''error'']"
    by blast
  with a t show ?thesis
    by simp
qed

text \<open>
  C6 as stated fails for the output mode: with \<^verbatim>\<open>downloadType\<close> empty and the other four fields
  filled, validation passes and the dispatch request and the listing request are sent.
\<close>

theorem handleSubmit_empty_output_mode_counterexample:
  "inputs noTypePage ''downloadType'' = []
   \<and> fst (validateForm (getFormData noTypePage) noTypePage)
   \<and> filter isFetch (trace (handleSubmit noRunWorld noTypePage)) =
       [Fetch (dispatchRequest noRunWorld (getFormData noTypePage)),
        Fetch (runsRequest (getFormData noTypePage))]"
  by code_simp

subsection \<open>C8: owner and repository name persist\<close>

text \<open>
  C8. \<^verbatim>\<open>saveRepoInfo\<close> stores the owner and the repository name under the keys \<^verbatim>\<open>repoOwner\<close> and
  \<^verbatim>\<open>repoName\<close>, where a later read finds exactly them. After a submission that passes
  validation, on any page that has the storage the submission left (the page reloaded),
  \<^verbatim>\<open>init\<close> fills the two form fields with the submitted owner and repository name, whatever
  the network did and whatever was stored before.
\<close>

theorem saved_repo_info_round_trip:
  "localStorage (saveRepoInfo owner repo s) ''repoOwner'' = Some owner
   \<and> localStorage (saveRepoInfo owner repo s) ''repoName'' = Some repo
   \<and> (fst (validateForm (getFormData s) s) \<and> localStorage p = localStorage (handleSubmit w s) \<longrightarrow>
        localStorage p ''repoOwner'' = Some (inputs s ''repoOwner'')
        \<and> localStorage p ''repoName'' = Some (inputs s ''repoName'')
        \<and> inputs (init p) ''repoOwner'' = inputs s ''repoOwner''
        \<and> inputs (init p) ''repoName'' = inputs s ''repoName'')"
proof (intro conjI impI)
  show "localStorage (saveRepoInfo owner repo s) ''repoOwner'' = Some owner"
    by (simp add: page_ops)
  show "localStorage (saveRepoInfo owner repo s) ''repoName'' = Some repo"
    by (simp add: page_ops)
next
  assume h: "fst (validateForm (getFormData s) s) \<and> localStorage p = localStorage (handleSubmit w s)"
  then have v: "fst (validateForm (getFormData s) s)"
    and p: "localStorage p = localStorage (handleSubmit w s)"
    by simp_all
  from validateForm_filled [OF v] have ne: "inputs s ''repoOwner'' \<noteq> []" "inputs s ''repoName'' \<noteq> []"
    by (simp_all add: getFormData_def)
  show o: "localStorage p ''repoOwner'' = Some (inputs s ''repoOwner'')"
    unfolding p handleSubmit_storage [OF v] by simp
  show r: "localStorage p ''repoName'' = Some (inputs s ''repoName'')"
    unfolding p handleSubmit_storage [OF v] by simp
  show "inputs (init p) ''repoOwner'' = inputs s ''repoOwner''"
    using o r ne by (simp add: init_def loadSavedRepoInfo_def Let_def page_ops)
  show "inputs (init p) ''repoName'' = inputs s ''repoName''"
    using o r ne by (simp add: init_def loadSavedRepoInfo_def Let_def page_ops)
qed

theorem saved_repo_info_round_trip_witness:
  "fst (validateForm (getFormData examplePage) examplePage)
   \<and> inputs (reloadedPage (localStorage (handleSubmit noRunWorld examplePage))) ''repoOwner'' = []
   \<and> inputs (init (reloadedPage (localStorage (handleSubmit noRunWorld examplePage)))) ''repoOwner''
       = ''octocat''
   \<and> inputs (init (reloadedPage (localStorage (handleSubmit noRunWorld examplePage)))) ''repoName''
       = ''videos''"
proof -
  have a: "fst (validateForm (getFormData examplePage) examplePage)"
    by code_simp
  have b: "localStorage (reloadedPage (localStorage (handleSubmit noRunWorld examplePage)))
      = localStorage (handleSubmit noRunWorld examplePage)"
    by (simp add: reloadedPage_def)
  have c: "inputs (reloadedPage (localStorage (handleSubmit noRunWorld examplePage))) ''repoOwner'' = []"
    by (simp add: reloadedPage_def)
  have i: "inputs examplePage ''repoOwner'' = ''octocat''" "inputs examplePage ''repoName'' = ''videos''"
    by (simp_all add: examplePage_def exampleInputs_def)
  from saved_repo_info_round_trip
    [where s = examplePage and w = noRunWorld
       and p = "reloadedPage (localStorage (handleSubmit noRunWorld examplePage))"]
    a b
  have "inputs (init (reloadedPage (localStorage (handleSubmit noRunWorld examplePage)))) ''repoOwner''
       = inputs examplePage ''repoOwner''"
    and "inputs (init (reloadedPage (localStorage (handleSubmit noRunWorld examplePage)))) ''repoName''
       = inputs examplePage ''repoName''"
    by blast+
  with a c i show ?thesis
    by simp
qed

subsection \<open>C10: saved before the dispatch, kept when it fails\<close>

text \<open>
  C10. In every submission that passes validation the owner and the repository name are
  written to the storage before the dispatch request is sent, and whatever the outcome of the
  dispatch and of all that follows, the storage at the end is the old one with these two
  values written: a failed dispatch does not undo the write.
\<close>

theorem handleSubmit_saves_before_dispatch:
  assumes "fst (validateForm (getFormData s) s)"
  shows "localStorage (handleSubmit w s) =
      (localStorage s)(''repoOwner'' \<mapsto> inputs s ''repoOwner'', ''repoName'' \<mapsto> inputs s ''repoName'')
    \<and> prefix
        (trace s @
          [StorageSet ''repoOwner'' (inputs s ''repoOwner''),
           StorageSet ''repoName'' (inputs s ''repoName''),
           SetLoading True,
           ShowStatus ''Triggering download workflow...'' ''info'',
           Fetch (dispatchRequest w (getFormData s))])
        (trace (handleSubmit w s))"
proof -
  from handleSubmit_later [OF assms, of w]
  have "prefix (trace (emit (Fetch (dispatchRequest w (getFormData s))) (beforeDispatch s)))
      (trace (handleSubmit w s))"
    by (simp add: later_def)
  then have "prefix
        (trace s @
          [StorageSet ''repoOwner'' (inputs s ''repoOwner''),
           StorageSet ''repoName'' (inputs s ''repoName''),
           SetLoading True,
           ShowStatus ''Triggering download workflow...'' ''info'',
           Fetch (dispatchRequest w (getFormData s))])
        (trace (handleSubmit w s))"
    by (simp add: page_ops beforeDispatch_def getFormData_def)
  with handleSubmit_storage [OF assms, of w] show ?thesis
    by simp
qed

theorem handleSubmit_saves_before_dispatch_witness:
  "fst (validateForm (getFormData examplePage) examplePage)
   \<and> fst (triggerWorkflow (refusingWorld 401 ''Unauthorized''
        (Some (JObj [(''message'', JStr ''Bad credentials'')]))) exampleForm (beforeDispatch examplePage))
       = Inl (Error ''Bad credentials'')
   \<and> localStorage (handleSubmit (refusingWorld 401 ''Unauthorized''
        (Some (JObj [(''message'', JStr ''Bad credentials'')]))) examplePage) ''repoOwner''
       = Some ''octocat''
   \<and> localStorage (handleSubmit (refusingWorld 401 ''Unauthorized''
        (Some (JObj [(''message'', JStr ''Bad credentials'')]))) examplePage) ''repoName''
       = Some ''videos''"
proof -
  have a: "fst (validateForm (getFormData examplePage) examplePage)"
    by code_simp
  have b: "fst (triggerWorkflow (refusingWorld 401 ''Unauthorized''
        (Some (JObj [(''message'', JStr ''Bad credentials'')]))) exampleForm (beforeDispatch examplePage))
       = Inl (Error ''Bad credentials'')"
    by code_simp
  have i: "inputs examplePage ''repoOwner'' = ''octocat''" "inputs examplePage ''repoName'' = ''videos''"
    by (simp_all add: examplePage_def exampleInputs_def)
  from handleSubmit_saves_before_dispatch [OF a, of "refusingWorld 401 ''Unauthorized''
        (Some (JObj [(''message'', JStr ''Bad credentials'')]))"] a b i
  show ?thesis
    by simp
qed

end
